theory Spec2Isabelle
  imports Complex_Main "HOL-Library.Log_Nat"
begin

section \<open>JavaScript primitives used by the sources\<close>

text \<open>
  Line numbers are integers. Other JavaScript numbers are finite binary64 values, held as
  the reals they denote; the arithmetic on them is the rounded arithmetic defined below.

  \<^verbatim>\<open>Array.prototype.slice(start, end)\<close>: a negative index counts from the end of the
  array, and both indices are clamped to the array.
\<close>

definition slice_js :: "'a list \<Rightarrow> int \<Rightarrow> int \<Rightarrow> 'a list" where
  "slice_js xs start fin =
     (let n = int (length xs);
          s = (if start < 0 then max (n + start) 0 else min start n);
          e = (if fin < 0 then max (n + fin) 0 else min fin n)
      in take (nat (e - s)) (drop (nat s) xs))"

text \<open>\<^verbatim>\<open>slice(start)\<close> with the end left out runs to the end of the array.\<close>

definition slice_from :: "'a list \<Rightarrow> int \<Rightarrow> 'a list" where
  "slice_from xs start = slice_js xs start (int (length xs))"

text \<open>\<^verbatim>\<open>Math.round\<close> returns the integer nearest to its argument, a half going up; it
  is exact.\<close>

definition js_round :: "real \<Rightarrow> int" where
  "js_round x = \<lfloor>x + 1 / 2\<rfloor>"

subsection \<open>Binary64 arithmetic\<close>

text \<open>
  A JavaScript number is an IEEE 754 binary64 value, and \<^verbatim>\<open>+\<close>, \<^verbatim>\<open>-\<close>, \<^verbatim>\<open>*\<close> and
  \<^verbatim>\<open>/\<close> return the exact result rounded to the nearest binary64 value, a tie going to
  the even significand. \<open>round64\<close> is that rounding on the finite range: a significand of
  53 bits down to the exponent \<open>-1022\<close>, and multiples of \<open>2 ^ -1074\<close> below. Infinities
  and NaN are left out: a result beyond the largest binary64 value stays the rounded real,
  so the arithmetic is the code's as long as no result overflows.
  Where a decimal literal meets a computed number, as \<^verbatim>\<open>0.1\<close> does in
  \<^verbatim>\<open>analyzeProgressTrend\<close>, it stands for its binary64 value \<open>round64 (1 / 10)\<close>.
\<close>

definition pow2 :: "int \<Rightarrow> real" where
  "pow2 k = (if 0 \<le> k then 2 ^ nat k else 1 / 2 ^ nat (- k))"

text \<open>The binary exponent of a number other than 0: \<open>pow2 e \<le> \<bar>x\<bar> < pow2 (e + 1)\<close>.\<close>

definition exponent64 :: "real \<Rightarrow> int" where
  "exponent64 x =
     (if 1 \<le> \<bar>x\<bar> then bitlen \<lfloor>\<bar>x\<bar>\<rfloor> - 1 else - bitlen (\<lceil>1 / \<bar>x\<bar>\<rceil> - 1))"

definition roundHalfEven :: "real \<Rightarrow> int" where
  "roundHalfEven m =
     (let f = \<lfloor>m\<rfloor>; r = m - of_int f
      in if r < 1 / 2 then f else if 1 / 2 < r then f + 1 else if even f then f else f + 1)"

definition round64 :: "real \<Rightarrow> real" where
  "round64 x =
     (if x = 0 then 0
      else let q = max (exponent64 x - 52) (- 1074)
           in of_int (roundHalfEven (x / pow2 q)) * pow2 q)"

definition fadd :: "real \<Rightarrow> real \<Rightarrow> real" where
  "fadd a b = round64 (a + b)"

definition fsub :: "real \<Rightarrow> real \<Rightarrow> real" where
  "fsub a b = round64 (a - b)"

definition fmul :: "real \<Rightarrow> real \<Rightarrow> real" where
  "fmul a b = round64 (a * b)"

definition fdiv :: "real \<Rightarrow> real \<Rightarrow> real" where
  "fdiv a b = round64 (a / b)"

text \<open>The value a JavaScript function hands back: a number, or \<^verbatim>\<open>undefined\<close> when
  the body ends without a \<^verbatim>\<open>return\<close>.\<close>

datatype js_return = Undefined | Number real

section \<open>ModelPerformanceTracker\<close>

subsection \<open>Metric samples and the metrics object\<close>

record response_sample =
  rs_time :: real
  rs_timestamp :: string

record accuracy_sample =
  as_accuracy :: real
  as_timestamp :: string

record satisfaction_sample =
  ss_rating :: real
  ss_category :: string
  ss_timestamp :: string

record metrics =
  responseTime :: "response_sample list"
  accuracy :: "accuracy_sample list"
  userSatisfaction :: "satisfaction_sample list"
  cacheHitRate :: real
  totalRequests :: nat

text \<open>An issue as the submission handler and the tracker read it: only \<^verbatim>\<open>line\<close> and
  \<^verbatim>\<open>type\<close> are inspected.\<close>

record issue =
  line :: int
  type :: string

subsection \<open>calculateAccuracy\<close>

text \<open>The inner loop of \<^verbatim>\<open>calculateAccuracy\<close>: it walks the canonical issues and
  stops (\<^verbatim>\<open>matches++; break\<close>) at the first one within two lines and of the same type.\<close>

fun matchesAny :: "issue \<Rightarrow> issue list \<Rightarrow> bool" where
  "matchesAny userIssue [] = False"
| "matchesAny userIssue (correctIssue # rest) =
     (if \<bar>line userIssue - line correctIssue\<bar> \<le> 2 \<and> type userIssue = type correctIssue
      then True
      else matchesAny userIssue rest)"

text \<open>The outer loop, with the counter \<^verbatim>\<open>matches\<close> as accumulator.\<close>

fun countMatches :: "issue list \<Rightarrow> issue list \<Rightarrow> nat \<Rightarrow> nat" where
  "countMatches [] correct matches = matches"
| "countMatches (userIssue # rest) correct matches =
     countMatches rest correct (if matchesAny userIssue correct then matches + 1 else matches)"

definition calculateAccuracy :: "issue list \<Rightarrow> issue list \<Rightarrow> real" where
  "calculateAccuracy userFound correct =
     (if length correct = 0 then 1
      else fdiv (real (countMatches userFound correct 0)) (real (length correct)))"

subsection \<open>The three track operations\<close>

text \<open>
  Each operation pushes one sample and then keeps the last 100 entries. The timestamp
  \<^verbatim>\<open>new Date().toISOString()\<close> is the parameter \<open>now\<close>. The write-through
  \<^verbatim>\<open>saveMetrics()\<close> only copies the metrics object to a file and is left out.
\<close>

definition keepLast100 :: "'a list \<Rightarrow> 'a list" where
  "keepLast100 xs = (if length xs > 100 then slice_from xs (- 100) else xs)"

definition trackResponseTime :: "real \<Rightarrow> real \<Rightarrow> string \<Rightarrow> metrics \<Rightarrow> js_return \<times> metrics" where
  "trackResponseTime startTime endTime now m =
     (let rt = fsub endTime startTime;
          pushed = responseTime m @ [\<lparr>rs_time = rt, rs_timestamp = now\<rparr>]
      in (Number rt, m\<lparr>responseTime := keepLast100 pushed\<rparr>))"

definition trackAccuracy :: "issue list \<Rightarrow> issue list \<Rightarrow> string \<Rightarrow> metrics \<Rightarrow> js_return \<times> metrics" where
  "trackAccuracy userFoundIssues correctIssues now m =
     (let acc = calculateAccuracy userFoundIssues correctIssues;
          pushed = accuracy m @ [\<lparr>as_accuracy = acc, as_timestamp = now\<rparr>]
      in (Number acc, m\<lparr>accuracy := keepLast100 pushed\<rparr>))"

text \<open>\<^verbatim>\<open>trackUserSatisfaction\<close> has no \<^verbatim>\<open>return\<close> statement.\<close>

definition trackUserSatisfaction :: "real \<Rightarrow> string \<Rightarrow> string \<Rightarrow> metrics \<Rightarrow> js_return \<times> metrics" where
  "trackUserSatisfaction rating category now m =
     (let pushed = userSatisfaction m @
            [\<lparr>ss_rating = rating, ss_category = category, ss_timestamp = now\<rparr>]
      in (Undefined, m\<lparr>userSatisfaction := keepLast100 pushed\<rparr>))"

subsection \<open>The report and the retrain signal\<close>

text \<open>\<^verbatim>\<open>values.reduce((sum, v) => sum + v, 0) / values.length\<close>: the sum is taken from
  the left, starting at 0, each addition rounded, and so is the division. It is only
  applied to non-empty arrays.\<close>

definition average :: "real list \<Rightarrow> real" where
  "average vs = fdiv (foldl fadd 0 vs) (real (length vs))"

definition isImproving :: "real list \<Rightarrow> bool \<Rightarrow> bool option" where
  "isImproving vals higherIsBetter =
     (if length vals < 10 then None
      else
        let recent = slice_from vals (- 10);
            older = slice_js vals (- 20) (- 10)
        in if length older = 0 then None
           else
             let recentAvg = average recent;
                 olderAvg = average older
             in Some (if higherIsBetter then recentAvg > olderAvg else recentAvg < olderAvg))"

record trends =
  responseTimeImproving :: "bool option"
  accuracyImproving :: "bool option"
  satisfactionImproving :: "bool option"

record report =
  averageResponseTime :: int
  averageAccuracy :: int
  averageUserSatisfaction :: real
  reportCacheHitRate :: int
  reportTotalRequests :: nat
  recentTrends :: trends

definition getPerformanceReport :: "metrics \<Rightarrow> report" where
  "getPerformanceReport m =
     (let avgResponseTime =
            (if length (responseTime m) > 0 then average (map rs_time (responseTime m)) else 0);
          avgAccuracy =
            (if length (accuracy m) > 0 then average (map as_accuracy (accuracy m)) else 0);
          avgSatisfaction =
            (if length (userSatisfaction m) > 0
             then average (map ss_rating (userSatisfaction m)) else 0)
      in \<lparr>averageResponseTime = js_round avgResponseTime,
          averageAccuracy = js_round (fmul avgAccuracy 100),
          averageUserSatisfaction = fdiv (real_of_int (js_round (fmul avgSatisfaction 10))) 10,
          reportCacheHitRate = js_round (fmul (cacheHitRate m) 100),
          reportTotalRequests = totalRequests m,
          recentTrends =
            \<lparr>responseTimeImproving = isImproving (map rs_time (responseTime m)) False,
             accuracyImproving = isImproving (map as_accuracy (accuracy m)) True,
             satisfactionImproving = isImproving (map ss_rating (userSatisfaction m)) True\<rparr>\<rparr>)"

definition shouldRetrain :: "metrics \<Rightarrow> bool" where
  "shouldRetrain m =
     (let report = getPerformanceReport m
      in averageResponseTime report > 5000 \<or>
         averageAccuracy report < 70 \<or>
         averageUserSatisfaction report < 3.5 \<or>
         responseTimeImproving (recentTrends report) = Some False \<or>
         accuracyImproving (recentTrends report) = Some False \<or>
         satisfactionImproving (recentTrends report) = Some False)"

section \<open>Submission scoring (server/index.js)\<close>

text \<open>\<^verbatim>\<open>foundIssues.filter(found => correctIssues.some(correct => ...)).length\<close>\<close>

definition correctlyFound :: "issue list \<Rightarrow> issue list \<Rightarrow> nat" where
  "correctlyFound foundIssues correctIssues =
     length (filter (\<lambda>found.
        list_ex (\<lambda>correct. \<bar>line found - line correct\<bar> \<le> 2 \<and> type found = type correct)
          correctIssues) foundIssues)"

section \<open>AnalyticsService.analyzeProgressTrend\<close>

text \<open>One row of the \<^verbatim>\<open>progressTrend\<close> query: a day on which the user completed at
  least one exercise, newest day first.\<close>

record trend_row =
  tr_date :: int
  tr_exercises_completed :: nat
  daily_accuracy :: real
  daily_avg_time :: "real option"

datatype trend = insufficient_data | new_user | improving | declining | stable

record trend_result =
  trend :: trend
  message :: string
  improvement :: "int option"
  decline :: "int option"

definition analyzeProgressTrend :: "trend_row list \<Rightarrow> trend_result" where
  "analyzeProgressTrend trendData =
     (if length trendData < 3
      then \<lparr>trend = insufficient_data, message = ''Need more data to analyze trends'',
            improvement = None, decline = None\<rparr>
      else
        let recent = slice_js trendData 0 7;
            older = slice_js trendData 7 14
        in if length older = 0
           then \<lparr>trend = new_user, message = ''Just started your learning journey!'',
                 improvement = None, decline = None\<rparr>
           else
             let recentAvg = average (map daily_accuracy recent);
                 olderAvg = average (map daily_accuracy older);
                 improvement = fsub recentAvg olderAvg
             in if improvement > round64 (1 / 10)
                then \<lparr>trend = improving,
                      message = ''Great progress! Your accuracy is improving.'',
                      improvement = Some (js_round (fmul improvement 100)), decline = None\<rparr>
                else if improvement < - round64 (1 / 10)
                then \<lparr>trend = declining,
                      message = ''Consider reviewing fundamentals or taking a break.'',
                      improvement = None,
                      decline = Some (js_round (fmul \<bar>improvement\<bar> 100))\<rparr>
                else \<lparr>trend = stable,
                      message = ''Consistent performance. Ready for new challenges?'',
                      improvement = None, decline = None\<rparr>)"

section \<open>AchievementSystem\<close>

subsection \<open>The catalog\<close>

datatype achievement_type = Milestone | Skill | Speed | Category | Streak | Special

datatype rarity = Common | Uncommon | Rare | Legendary

text \<open>A requirement object: every property the catalog uses, absent (\<^verbatim>\<open>undefined\<close>)
  where an entry does not set it.\<close>

record requirement =
  exercises_completed :: "int option"
  consecutive_high_accuracy :: "int option"
  accuracy_threshold :: "real option"
  perfect_score :: "int option"
  time_under :: "int option"
  fast_completions :: "int option"
  time_threshold :: "int option"
  req_category :: "string option"
  exercises :: "int option"
  req_accuracy :: "real option"
  daily_streak :: "int option"
  night_exercises :: "int option"
  morning_exercises :: "int option"
  languages :: "int option"

definition no_requirement :: requirement where
  "no_requirement =
     \<lparr>exercises_completed = None, consecutive_high_accuracy = None, accuracy_threshold = None,
      perfect_score = None, time_under = None, fast_completions = None, time_threshold = None,
      req_category = None, exercises = None, req_accuracy = None, daily_streak = None,
      night_exercises = None, morning_exercises = None, languages = None\<rparr>"

text \<open>An achievement definition (the \<^verbatim>\<open>icon\<close> emoji is left out).\<close>

record achievement =
  ach_id :: string
  name :: string
  description :: string
  ach_type :: achievement_type
  requirement :: requirement
  points :: nat
  rarity :: rarity

text \<open>\<^verbatim>\<open>defineAchievements()\<close>, as the list \<^verbatim>\<open>Object.entries\<close> walks: key and
  definition, in insertion order.\<close>

definition achievements :: "(string \<times> achievement) list" where
  "achievements =
    [(''first_steps'',
      \<lparr>ach_id = ''first_steps'', name = ''First Steps'',
       description = ''Complete your first code review exercise'', ach_type = Milestone,
       requirement = no_requirement\<lparr>exercises_completed := Some 1\<rparr>,
       points = 10, rarity = Common\<rparr>),
     (''getting_started'',
      \<lparr>ach_id = ''getting_started'', name = ''Getting Started'',
       description = ''Complete 5 code review exercises'', ach_type = Milestone,
       requirement = no_requirement\<lparr>exercises_completed := Some 5\<rparr>,
       points = 25, rarity = Common\<rparr>),
     (''dedicated_learner'',
      \<lparr>ach_id = ''dedicated_learner'', name = ''Dedicated Learner'',
       description = ''Complete 25 exercises'', ach_type = Milestone,
       requirement = no_requirement\<lparr>exercises_completed := Some 25\<rparr>,
       points = 100, rarity = Uncommon\<rparr>),
     (''code_review_master'',
      \<lparr>ach_id = ''code_review_master'', name = ''Code Review Master'',
       description = ''Complete 100 exercises'', ach_type = Milestone,
       requirement = no_requirement\<lparr>exercises_completed := Some 100\<rparr>,
       points = 500, rarity = Rare\<rparr>),
     (''sharp_eye'',
      \<lparr>ach_id = ''sharp_eye'', name = ''Sharp Eye'',
       description = ''Achieve 90% accuracy on 5 consecutive exercises'', ach_type = Skill,
       requirement = no_requirement\<lparr>consecutive_high_accuracy := Some 5,
                                     accuracy_threshold := Some 0.9\<rparr>,
       points = 75, rarity = Uncommon\<rparr>),
     (''perfectionist'',
      \<lparr>ach_id = ''perfectionist'', name = ''Perfectionist'',
       description = ''Achieve 100% accuracy on an exercise'', ach_type = Skill,
       requirement = no_requirement\<lparr>perfect_score := Some 1\<rparr>,
       points = 50, rarity = Uncommon\<rparr>),
     (''speed_demon'',
      \<lparr>ach_id = ''speed_demon'', name = ''Speed Demon'',
       description = ''Complete an exercise in under 60 seconds'', ach_type = Speed,
       requirement = no_requirement\<lparr>time_under := Some 60\<rparr>,
       points = 30, rarity = Uncommon\<rparr>),
     (''lightning_fast'',
      \<lparr>ach_id = ''lightning_fast'', name = ''Lightning Fast'',
       description = ''Complete 10 exercises in under 2 minutes each'', ach_type = Speed,
       requirement = no_requirement\<lparr>fast_completions := Some 10, time_threshold := Some 120\<rparr>,
       points = 100, rarity = Rare\<rparr>),
     (''security_specialist'',
      \<lparr>ach_id = ''security_specialist'', name = ''Security Specialist'',
       description = ''Complete 15 security exercises with 80%+ accuracy'', ach_type = Category,
       requirement = no_requirement\<lparr>req_category := Some ''security'', exercises := Some 15,
                                     req_accuracy := Some 0.8\<rparr>,
       points = 150, rarity = Rare\<rparr>),
     (''performance_guru'',
      \<lparr>ach_id = ''performance_guru'', name = ''Performance Guru'',
       description = ''Complete 15 performance exercises with 80%+ accuracy'',
       ach_type = Category,
       requirement = no_requirement\<lparr>req_category := Some ''performance'', exercises := Some 15,
                                     req_accuracy := Some 0.8\<rparr>,
       points = 150, rarity = Rare\<rparr>),
     (''logic_master'',
      \<lparr>ach_id = ''logic_master'', name = ''Logic Master'',
       description = ''Complete 15 logic exercises with 80%+ accuracy'', ach_type = Category,
       requirement = no_requirement\<lparr>req_category := Some ''logic'', exercises := Some 15,
                                     req_accuracy := Some 0.8\<rparr>,
       points = 150, rarity = Rare\<rparr>),
     (''consistent_learner'',
      \<lparr>ach_id = ''consistent_learner'', name = ''Consistent Learner'',
       description = ''Practice for 7 days in a row'', ach_type = Streak,
       requirement = no_requirement\<lparr>daily_streak := Some 7\<rparr>,
       points = 100, rarity = Uncommon\<rparr>),
     (''unstoppable'',
      \<lparr>ach_id = ''unstoppable'', name = ''Unstoppable'',
       description = ''Practice for 30 days in a row'', ach_type = Streak,
       requirement = no_requirement\<lparr>daily_streak := Some 30\<rparr>,
       points = 500, rarity = Legendary\<rparr>),
     (''night_owl'',
      \<lparr>ach_id = ''night_owl'', name = ''Night Owl'',
       description = ''Complete 10 exercises between 10 PM and 6 AM'', ach_type = Special,
       requirement = no_requirement\<lparr>night_exercises := Some 10\<rparr>,
       points = 50, rarity = Uncommon\<rparr>),
     (''early_bird'',
      \<lparr>ach_id = ''early_bird'', name = ''Early Bird'',
       description = ''Complete 10 exercises between 5 AM and 9 AM'', ach_type = Special,
       requirement = no_requirement\<lparr>morning_exercises := Some 10\<rparr>,
       points = 50, rarity = Uncommon\<rparr>),
     (''polyglot'',
      \<lparr>ach_id = ''polyglot'', name = ''Polyglot'',
       description = ''Complete exercises in 5 different programming languages'',
       ach_type = Special,
       requirement = no_requirement\<lparr>languages := Some 5\<rparr>,
       points = 200, rarity = Rare\<rparr>)]"

subsection \<open>The database\<close>

text \<open>
  The tables are lists of rows and every statement runs to completion without an SQLite
  error. A \<^verbatim>\<open>DATETIME\<close> is the number of seconds since the epoch (UTC), so that
  \<^verbatim>\<open>DATE(created_at)\<close> is the day number and \<^verbatim>\<open>strftime('%H', created_at)\<close> the
  hour of the day; \<open>now\<close> is the clock. Of \<^verbatim>\<open>exercise_analytics\<close> only the columns
  the queries of \<^verbatim>\<open>getUserStats\<close> and \<^verbatim>\<open>countFastCompletions\<close> read are kept;
  \<^verbatim>\<open>accuracy_score\<close> is never NULL, since \<^verbatim>\<open>trackExerciseCompletion\<close>, the only
  writer, always stores a number.
\<close>

record exercise_row =
  ea_user_id :: string
  ea_language :: string
  ea_category :: string
  time_to_complete :: "int option"
  accuracy_score :: real
  created_at :: int

record achievement_row =
  ua_id :: nat
  ua_user_id :: string
  ua_achievement_id :: string
  ua_earned_at :: int
  ua_progress :: int
  ua_completed :: bool

record badge_row =
  ub_id :: nat
  ub_user_id :: string
  badge_id :: string
  badge_name :: string
  badge_description :: string
  ub_earned_at :: int
  ub_rarity :: rarity

text \<open>\<open>ua_seq\<close> and \<open>ub_seq\<close> are the \<^verbatim>\<open>AUTOINCREMENT\<close> counters of the two tables
  that \<^verbatim>\<open>initializeTables\<close> creates.\<close>

record database =
  exercise_analytics :: "exercise_row list"
  user_achievements :: "achievement_row list"
  ua_seq :: nat
  user_badges :: "badge_row list"
  ub_seq :: nat

definition date_of :: "int \<Rightarrow> int" where
  "date_of ts = ts div 86400"

definition hour_of :: "int \<Rightarrow> nat" where
  "hour_of ts = nat ((ts mod 86400) div 3600)"

text \<open>SQL aggregates: \<^verbatim>\<open>AVG\<close>, \<^verbatim>\<open>MAX\<close> and \<^verbatim>\<open>MIN\<close> are NULL over no rows. The
  summation inside SQLite's \<^verbatim>\<open>AVG\<close> is not JavaScript's; it is read as the exact
  mean.\<close>

definition sql_mean :: "real list \<Rightarrow> real" where
  "sql_mean vs = sum_list vs / real (length vs)"

definition sql_avg :: "real list \<Rightarrow> real option" where
  "sql_avg vs = (if vs = [] then None else Some (sql_mean vs))"

definition sql_max :: "('a::linorder) list \<Rightarrow> 'a option" where
  "sql_max vs = (case vs of [] \<Rightarrow> None | v # rest \<Rightarrow> Some (fold max rest v))"

definition sql_min :: "('a::linorder) list \<Rightarrow> 'a option" where
  "sql_min vs = (case vs of [] \<Rightarrow> None | v # rest \<Rightarrow> Some (fold min rest v))"

subsection \<open>The five queries of getUserStats\<close>

record basic_row =
  total_exercises :: int
  avg_accuracy :: "real option"
  avg_time :: "real option"
  best_accuracy :: "real option"
  fastest_time :: "int option"

record category_row =
  cat_category :: string
  cat_count :: nat
  cat_avg_accuracy :: real

record language_row =
  language_count :: int

record recent_row =
  rr_date :: int
  daily_count :: nat
  rr_hour :: nat

record consecutive_row =
  cr_accuracy_score :: real
  cr_created_at :: int

record raw_stats =
  basic :: "basic_row list"
  rs_categories :: "category_row list"
  rs_languages :: "language_row list"
  recent :: "recent_row list"
  consecutive :: "consecutive_row list"

definition userRows :: "database \<Rightarrow> string \<Rightarrow> exercise_row list" where
  "userRows db userId = filter (\<lambda>r. ea_user_id r = userId) (exercise_analytics db)"

text \<open>An aggregate query without \<^verbatim>\<open>GROUP BY\<close> always yields exactly one row.\<close>

definition basicQuery :: "database \<Rightarrow> string \<Rightarrow> basic_row list" where
  "basicQuery db userId =
     (let rows = userRows db userId;
          times = List.map_filter time_to_complete rows
      in [\<lparr>total_exercises = int (length rows),
           avg_accuracy = sql_avg (map accuracy_score rows),
           avg_time = sql_avg (map real_of_int times),
           best_accuracy = sql_max (map accuracy_score rows),
           fastest_time = sql_min times\<rparr>])"

text \<open>One row per category. SQLite fixes no order for the groups; the only consumer
  stores them under their category name, so the order does not reach the result.\<close>

definition categoriesQuery :: "database \<Rightarrow> string \<Rightarrow> category_row list" where
  "categoriesQuery db userId =
     (let rows = userRows db userId
      in map (\<lambda>c. let grp = filter (\<lambda>r. ea_category r = c) rows
                  in \<lparr>cat_category = c, cat_count = length grp,
                      cat_avg_accuracy = sql_mean (map accuracy_score grp)\<rparr>)
             (remdups (map ea_category rows)))"

definition languagesQuery :: "database \<Rightarrow> string \<Rightarrow> language_row list" where
  "languagesQuery db userId =
     [\<lparr>language_count = int (length (remdups (map ea_language (userRows db userId))))\<rparr>]"

text \<open>One row per day of the last 30 days, newest day first. The bare column
  \<^verbatim>\<open>hour\<close> is taken from one row of the group: SQLite takes the first row of the
  group in table order.\<close>

definition recentQuery :: "database \<Rightarrow> int \<Rightarrow> string \<Rightarrow> recent_row list" where
  "recentQuery db now userId =
     (let rows = filter (\<lambda>r. created_at r \<ge> now - 30 * 86400) (userRows db userId)
      in map (\<lambda>d. let grp = filter (\<lambda>r. date_of (created_at r) = d) rows
                  in \<lparr>rr_date = d, daily_count = length grp,
                      rr_hour = hour_of (created_at (hd grp))\<rparr>)
             (rev (sort (remdups (map (\<lambda>r. date_of (created_at r)) rows)))))"

text \<open>\<^verbatim>\<open>ORDER BY created_at DESC LIMIT 10\<close>: rows with equal timestamps keep their
  table order.\<close>

definition mostRecentFirst :: "exercise_row list \<Rightarrow> exercise_row list" where
  "mostRecentFirst rows = sort_key (\<lambda>r. - created_at r) rows"

definition consecutiveQuery :: "database \<Rightarrow> string \<Rightarrow> consecutive_row list" where
  "consecutiveQuery db userId =
     map (\<lambda>r. \<lparr>cr_accuracy_score = accuracy_score r, cr_created_at = created_at r\<rparr>)
         (take 10 (mostRecentFirst (userRows db userId)))"

subsection \<open>processUserStats\<close>

record cat_stats =
  cs_count :: nat
  cs_avgAccuracy :: real

record user_stats =
  totalExercises :: int
  avgAccuracy :: real
  avgTime :: real
  bestAccuracy :: real
  fastestTime :: int
  categories :: "string \<rightharpoonup> cat_stats"
  languageCount :: int
  currentStreak :: nat
  consecutiveHighAccuracy :: nat
  nightExercises :: nat
  morningExercises :: nat
  hasPerfectScore :: bool

text \<open>\<^verbatim>\<open>v || d\<close> on a column value: NULL, a missing property and 0 are falsy.\<close>

definition or_default :: "('a::zero) option \<Rightarrow> 'a \<Rightarrow> 'a" where
  "or_default v d = (case v of None \<Rightarrow> d | Some x \<Rightarrow> if x = 0 then d else x)"

text \<open>The streak loop: \<open>checkDate\<close> starts at today's day number and moves back one day
  for every row that carries it; the first other row \<^verbatim>\<open>break\<close>s.\<close>

fun streakLoop :: "recent_row list \<Rightarrow> int \<Rightarrow> nat \<Rightarrow> nat" where
  "streakLoop [] checkDate streak = streak"
| "streakLoop (day # rest) checkDate streak =
     (if rr_date day = checkDate then streakLoop rest (checkDate - 1) (streak + 1)
      else streak)"

fun highAccuracyLoop :: "consecutive_row list \<Rightarrow> nat \<Rightarrow> nat" where
  "highAccuracyLoop [] n = n"
| "highAccuracyLoop (exercise # rest) n =
     (if cr_accuracy_score exercise \<ge> 0.9 then highAccuracyLoop rest (n + 1) else n)"

text \<open>\<^verbatim>\<open>rawStats.basic[0] || {}\<close>: with no row every property read is
  \<^verbatim>\<open>undefined\<close>.\<close>

definition processUserStats :: "int \<Rightarrow> raw_stats \<Rightarrow> user_stats" where
  "processUserStats now rawStats =
     (let basic0 = (case basic rawStats of [] \<Rightarrow> None | b # _ \<Rightarrow> Some b);
          languages0 = (case rs_languages rawStats of [] \<Rightarrow> None | l # _ \<Rightarrow> Some l);
          currentStreak = streakLoop (recent rawStats) (date_of now) 0;
          consecutiveHighAccuracy = highAccuracyLoop (consecutive rawStats) 0;
          nightExercises = length (filter (\<lambda>r. rr_hour r \<ge> 22 \<or> rr_hour r \<le> 6) (recent rawStats));
          morningExercises = length (filter (\<lambda>r. rr_hour r \<ge> 5 \<and> rr_hour r \<le> 9) (recent rawStats))
      in \<lparr>totalExercises = or_default (map_option total_exercises basic0) 0,
          avgAccuracy = or_default (Option.bind basic0 avg_accuracy) 0,
          avgTime = or_default (Option.bind basic0 avg_time) 0,
          bestAccuracy = or_default (Option.bind basic0 best_accuracy) 0,
          fastestTime = or_default (Option.bind basic0 fastest_time) 999999,
          categories =
            fold (\<lambda>cat acc. acc(cat_category cat \<mapsto>
                    \<lparr>cs_count = cat_count cat, cs_avgAccuracy = cat_avg_accuracy cat\<rparr>))
                 (rs_categories rawStats) Map.empty,
          languageCount = or_default (map_option language_count languages0) 0,
          currentStreak = currentStreak,
          consecutiveHighAccuracy = consecutiveHighAccuracy,
          nightExercises = nightExercises,
          morningExercises = morningExercises,
          hasPerfectScore = (Option.bind basic0 best_accuracy = Some 1)\<rparr>)"

definition getUserStats :: "database \<Rightarrow> int \<Rightarrow> string \<Rightarrow> user_stats" where
  "getUserStats db now userId =
     processUserStats now
       \<lparr>basic = basicQuery db userId,
        rs_categories = categoriesQuery db userId,
        rs_languages = languagesQuery db userId,
        recent = recentQuery db now userId,
        consecutive = consecutiveQuery db userId\<rparr>"

subsection \<open>The progressTrend query\<close>

text \<open>One row per day of the last 14 days on which the user completed an exercise,
  newest day first.\<close>

definition progressTrendQuery :: "database \<Rightarrow> int \<Rightarrow> string \<Rightarrow> trend_row list" where
  "progressTrendQuery db now userId =
     (let rows = filter (\<lambda>r. created_at r \<ge> now - 14 * 86400) (userRows db userId)
      in map (\<lambda>d. let grp = filter (\<lambda>r. date_of (created_at r) = d) rows
                  in \<lparr>tr_date = d, tr_exercises_completed = length grp,
                      daily_accuracy = sql_mean (map accuracy_score grp),
                      daily_avg_time =
                        sql_avg (map real_of_int (List.map_filter time_to_complete grp))\<rparr>)
             (rev (sort (remdups (map (\<lambda>r. date_of (created_at r)) rows)))))"

subsection \<open>Promises and the database driver\<close>

text \<open>
  The state a promise ends in: resolved with a value, rejected with an error, or never
  settled.
\<close>

datatype 'a promise = Resolved 'a | Rejected string | Unsettled

text \<open>
  The driver hands every statement's callback an error or none. A \<open>driver\<close> lists what
  it will hand to the successive statements of one invocation: \<open>Some e\<close> the error \<open>e\<close>,
  \<open>None\<close> success; past the end of the list every statement succeeds.
\<close>

type_synonym driver = "string option list"

fun nextError :: "driver \<Rightarrow> string option \<times> driver" where
  "nextError [] = (None, [])"
| "nextError (err # rest) = (err, rest)"

text \<open>In \<^verbatim>\<open>getUserStats\<close> a failed query is logged and counts as no rows; the promise
  always resolves.\<close>

definition rowsOrNone :: "string option \<Rightarrow> 'a list \<Rightarrow> 'a list" where
  "rowsOrNone err rows = (case err of None \<Rightarrow> rows | Some e \<Rightarrow> [])"

definition getUserStatsWith :: "database \<Rightarrow> int \<Rightarrow> string \<Rightarrow> driver \<Rightarrow> user_stats \<times> driver" where
  "getUserStatsWith db now userId drv =
     (let (e1, d1) = nextError drv;
          (e2, d2) = nextError d1;
          (e3, d3) = nextError d2;
          (e4, d4) = nextError d3;
          (e5, d5) = nextError d4
      in (processUserStats now
            \<lparr>basic = rowsOrNone e1 (basicQuery db userId),
             rs_categories = rowsOrNone e2 (categoriesQuery db userId),
             rs_languages = rowsOrNone e3 (languagesQuery db userId),
             recent = rowsOrNone e4 (recentQuery db now userId),
             consecutive = rowsOrNone e5 (consecutiveQuery db userId)\<rparr>,
          d5))"

subsection \<open>meetsRequirement\<close>

text \<open>\<^verbatim>\<open>timeToComplete\<close> is the \<^verbatim>\<open>timeSpent\<close> of the request body: a count of
  seconds, \<^verbatim>\<open>null\<close>, or missing.\<close>

datatype js_time = TimeUndefined | TimeNull | TimeNumber int

record exercise_data =
  exerciseCompleted :: bool
  score :: real
  timeToComplete :: js_time
  ed_category :: string
  ed_language :: string

text \<open>\<^verbatim>\<open>if (req.x)\<close>: a property that is missing or 0 is falsy.\<close>

definition truthy :: "('a::zero) option \<Rightarrow> bool" where
  "truthy v = (case v of None \<Rightarrow> False | Some x \<Rightarrow> x \<noteq> 0)"

text \<open>\<^verbatim>\<open>a >= req.x\<close> and \<^verbatim>\<open>a <= req.x\<close>: a comparison with \<^verbatim>\<open>undefined\<close> is
  false.\<close>

definition ge_req :: "('a::linorder) \<Rightarrow> 'a option \<Rightarrow> bool" where
  "ge_req a b = (case b of None \<Rightarrow> False | Some n \<Rightarrow> a \<ge> n)"

definition le_req :: "('a::linorder) \<Rightarrow> 'a option \<Rightarrow> bool" where
  "le_req a b = (case b of None \<Rightarrow> False | Some n \<Rightarrow> a \<le> n)"

text \<open>\<^verbatim>\<open>exerciseData.timeToComplete <= req.time_under\<close>: \<^verbatim>\<open>undefined\<close> compares as NaN,
  \<^verbatim>\<open>null\<close> as 0.\<close>

definition time_le_req :: "js_time \<Rightarrow> int option \<Rightarrow> bool" where
  "time_le_req t b =
     (case t of TimeUndefined \<Rightarrow> False | TimeNull \<Rightarrow> le_req 0 b | TimeNumber n \<Rightarrow> le_req n b)"

text \<open>The rows \<^verbatim>\<open>countFastCompletions\<close> counts: a NULL \<^verbatim>\<open>time_to_complete\<close>, or a NULL
  threshold, satisfies no comparison.\<close>

definition fastCompletions :: "database \<Rightarrow> string \<Rightarrow> int option \<Rightarrow> int" where
  "fastCompletions db userId timeThreshold =
     int (length (filter (\<lambda>r. case time_to_complete r of None \<Rightarrow> False
                               | Some t \<Rightarrow> le_req t timeThreshold)
                         (userRows db userId)))"

definition countFastCompletions ::
  "database \<Rightarrow> string \<Rightarrow> int option \<Rightarrow> string option \<Rightarrow> int promise" where
  "countFastCompletions db userId timeThreshold err =
     (case err of Some e \<Rightarrow> Rejected e
      | None \<Rightarrow> Resolved (fastCompletions db userId timeThreshold))"

text \<open>\<^verbatim>\<open>meetsRequirement\<close> is \<^verbatim>\<open>async\<close>: it resolves with the truth of the requirement,
  and rejects when \<^verbatim>\<open>countFastCompletions\<close>, the one statement it may run, rejects.\<close>

definition meetsRequirement ::
  "database \<Rightarrow> string \<Rightarrow> achievement \<Rightarrow> user_stats \<Rightarrow> exercise_data \<Rightarrow> driver \<Rightarrow>
   bool promise \<times> driver" where
  "meetsRequirement db userId achievement userStats exerciseData drv =
     (let req = requirement achievement
      in case ach_type achievement of
           Milestone \<Rightarrow>
             (Resolved (ge_req (totalExercises userStats) (exercises_completed req)), drv)
         | Skill \<Rightarrow>
             if truthy (consecutive_high_accuracy req)
             then (Resolved (ge_req (int (consecutiveHighAccuracy userStats))
                               (consecutive_high_accuracy req)), drv)
             else if truthy (perfect_score req) then (Resolved (hasPerfectScore userStats), drv)
             else (Resolved False, drv)
         | Speed \<Rightarrow>
             if truthy (time_under req)
             then (Resolved (time_le_req (timeToComplete exerciseData) (time_under req)), drv)
             else if truthy (fast_completions req)
             then (case countFastCompletions db userId (time_threshold req)
                          (fst (nextError drv)) of
                     Resolved n \<Rightarrow>
                       (Resolved (ge_req n (fast_completions req)), snd (nextError drv))
                   | Rejected e \<Rightarrow> (Rejected e, snd (nextError drv))
                   | Unsettled \<Rightarrow> (Unsettled, snd (nextError drv)))
             else (Resolved False, drv)
         | Category \<Rightarrow>
             (case categories userStats
                     (case req_category req of None \<Rightarrow> ''undefined'' | Some c \<Rightarrow> c) of
                None \<Rightarrow> (Resolved False, drv)
              | Some categoryStats \<Rightarrow>
                  (Resolved (ge_req (int (cs_count categoryStats)) (exercises req) \<and>
                             ge_req (cs_avgAccuracy categoryStats) (req_accuracy req)), drv))
         | Streak \<Rightarrow> (Resolved (ge_req (int (currentStreak userStats)) (daily_streak req)), drv)
         | Special \<Rightarrow>
             if truthy (night_exercises req)
             then (Resolved (ge_req (int (nightExercises userStats)) (night_exercises req)), drv)
             else if truthy (morning_exercises req)
             then (Resolved (ge_req (int (morningExercises userStats))
                               (morning_exercises req)), drv)
             else if truthy (languages req)
             then (Resolved (ge_req (languageCount userStats) (languages req)), drv)
             else (Resolved False, drv))"

subsection \<open>userHasAchievement, awardAchievement, checkAchievements\<close>

definition hasCompletedRow :: "database \<Rightarrow> string \<Rightarrow> string \<Rightarrow> bool" where
  "hasCompletedRow db userId achievementId =
     list_ex (\<lambda>r. ua_user_id r = userId \<and> ua_achievement_id r = achievementId \<and> ua_completed r)
       (user_achievements db)"

definition userHasAchievement ::
  "database \<Rightarrow> string \<Rightarrow> string \<Rightarrow> string option \<Rightarrow> bool promise" where
  "userHasAchievement db userId achievementId err =
     (case err of Some e \<Rightarrow> Rejected e
      | None \<Rightarrow> Resolved (hasCompletedRow db userId achievementId))"

text \<open>
  \<^verbatim>\<open>INSERT OR REPLACE\<close> under \<^verbatim>\<open>UNIQUE(user_id, achievement_id)\<close>: a row with the
  same pair is deleted, then the new row is inserted under a fresh id. On an error the
  promise is rejected. Otherwise the callback goes on to \<^verbatim>\<open>this.db.run(...)\<close>; it is a
  \<^verbatim>\<open>function(err)\<close>, whose \<^verbatim>\<open>this\<close> is the statement and has no \<^verbatim>\<open>db\<close>, so the call
  throws a TypeError before the badge insert is issued and before \<^verbatim>\<open>resolve\<close>: the row
  is in \<^verbatim>\<open>user_achievements\<close>, no badge row is written, and the promise is never
  settled. The TypeError is thrown in the driver's callback, outside the promise, and the
  server installs no handler for it; the model follows the database and the promise, and
  what the uncaught error does to the process is outside it.
\<close>

definition awardAchievement ::
  "database \<Rightarrow> int \<Rightarrow> string \<Rightarrow> achievement \<Rightarrow> string option \<Rightarrow> nat promise \<times> database" where
  "awardAchievement db now userId achievement err =
     (case err of
        Some e \<Rightarrow> (Rejected e, db)
      | None \<Rightarrow>
          (let lastID = Suc (ua_seq db);
               kept = filter (\<lambda>r. \<not> (ua_user_id r = userId \<and>
                                       ua_achievement_id r = ach_id achievement))
                             (user_achievements db);
               row = \<lparr>ua_id = lastID, ua_user_id = userId,
                      ua_achievement_id = ach_id achievement, ua_earned_at = now,
                      ua_progress = 100, ua_completed = True\<rparr>
           in (Unsettled, db\<lparr>user_achievements := kept @ [row], ua_seq := lastID\<rparr>)))"

text \<open>
  The \<^verbatim>\<open>for\<close> loop of \<^verbatim>\<open>checkAchievements\<close> over the catalog entries, threading the
  driver, the database and the list \<^verbatim>\<open>newAchievements\<close>. An \<^verbatim>\<open>await\<close> on a rejected
  promise throws, which rejects the invocation; an \<^verbatim>\<open>await\<close> on a promise that is never
  settled leaves the invocation unsettled.
\<close>

fun checkLoop ::
  "int \<Rightarrow> string \<Rightarrow> user_stats \<Rightarrow> exercise_data \<Rightarrow> (string \<times> achievement) list \<Rightarrow>
   driver \<Rightarrow> database \<Rightarrow> achievement list \<Rightarrow> achievement list promise \<times> database" where
  "checkLoop now userId userStats exerciseData [] drv db newAchievements =
     (Resolved newAchievements, db)"
| "checkLoop now userId userStats exerciseData ((achievementId, achievement) # rest) drv db
     newAchievements =
     (let (err1, drv1) = nextError drv
      in case userHasAchievement db userId achievementId err1 of
           Rejected e \<Rightarrow> (Rejected e, db)
         | Unsettled \<Rightarrow> (Unsettled, db)
         | Resolved hasAchievement \<Rightarrow>
             if hasAchievement
             then checkLoop now userId userStats exerciseData rest drv1 db newAchievements
             else
               (let (meets, drv2) =
                      meetsRequirement db userId achievement userStats exerciseData drv1
                in case meets of
                     Rejected e \<Rightarrow> (Rejected e, db)
                   | Unsettled \<Rightarrow> (Unsettled, db)
                   | Resolved ok \<Rightarrow>
                       if \<not> ok
                       then checkLoop now userId userStats exerciseData rest drv2 db
                              newAchievements
                       else
                         (let (err3, drv3) = nextError drv2;
                              (awarded, db') = awardAchievement db now userId achievement err3
                          in case awarded of
                               Rejected e \<Rightarrow> (Rejected e, db')
                             | Unsettled \<Rightarrow> (Unsettled, db')
                             | Resolved lastID \<Rightarrow>
                                 checkLoop now userId userStats exerciseData rest drv3 db'
                                   (newAchievements @ [achievement]))))"

definition checkAchievements ::
  "database \<Rightarrow> int \<Rightarrow> string \<Rightarrow> exercise_data \<Rightarrow> driver \<Rightarrow>
   achievement list promise \<times> database" where
  "checkAchievements db now userId exerciseData drv =
     (let (userStats, drv0) = getUserStatsWith db now userId drv
      in checkLoop now userId userStats exerciseData achievements drv0 db [])"

subsection \<open>Interleaved invocations\<close>

text \<open>
  \<^verbatim>\<open>checkAchievements\<close> is an \<^verbatim>\<open>async\<close> function: it runs without interruption
  between two \<^verbatim>\<open>await\<close>s, and another invocation may run at each \<^verbatim>\<open>await\<close>. A
  task is one invocation, stopped at an \<^verbatim>\<open>await\<close>: before \<^verbatim>\<open>getUserStats\<close>,
  before \<^verbatim>\<open>userHasAchievement\<close>, \<^verbatim>\<open>meetsRequirement\<close> or \<^verbatim>\<open>awardAchievement\<close> for
  the first of the entries still to visit, or at its end. It carries what its driver will
  still hand it.
\<close>

datatype task =
    Starting driver
  | AwaitHas driver user_stats "(string \<times> achievement) list" "achievement list"
  | AwaitMeets driver user_stats "(string \<times> achievement) list" "achievement list"
  | AwaitAward driver user_stats "(string \<times> achievement) list" "achievement list"
  | Ended "achievement list promise"

text \<open>What a step does to the table \<^verbatim>\<open>user_achievements\<close>: it reads whether an
  achievement is held, or it inserts a row for one.\<close>

datatype event = ReadHeld string bool | InsertAward string

fun stepTask ::
  "int \<Rightarrow> string \<Rightarrow> exercise_data \<Rightarrow> database \<Rightarrow> task \<Rightarrow> database \<times> task \<times> event list" where
  "stepTask now userId exerciseData db (Starting drv) =
     (let (userStats, drv0) = getUserStatsWith db now userId drv
      in (db, AwaitHas drv0 userStats achievements [], []))"
| "stepTask now userId exerciseData db (AwaitHas drv userStats [] new) =
     (db, Ended (Resolved new), [])"
| "stepTask now userId exerciseData db
     (AwaitHas drv userStats ((achievementId, achievement) # rest) new) =
     (let (err1, drv1) = nextError drv
      in case userHasAchievement db userId achievementId err1 of
           Rejected e \<Rightarrow> (db, Ended (Rejected e), [])
         | Unsettled \<Rightarrow> (db, Ended Unsettled, [])
         | Resolved hasAchievement \<Rightarrow>
             if hasAchievement
             then (db, AwaitHas drv1 userStats rest new, [ReadHeld achievementId True])
             else (db, AwaitMeets drv1 userStats ((achievementId, achievement) # rest) new,
                   [ReadHeld achievementId False]))"
| "stepTask now userId exerciseData db (AwaitMeets drv userStats [] new) =
     (db, Ended (Resolved new), [])"
| "stepTask now userId exerciseData db
     (AwaitMeets drv userStats ((achievementId, achievement) # rest) new) =
     (let (meets, drv2) = meetsRequirement db userId achievement userStats exerciseData drv
      in case meets of
           Rejected e \<Rightarrow> (db, Ended (Rejected e), [])
         | Unsettled \<Rightarrow> (db, Ended Unsettled, [])
         | Resolved ok \<Rightarrow>
             if \<not> ok then (db, AwaitHas drv2 userStats rest new, [])
             else (db, AwaitAward drv2 userStats ((achievementId, achievement) # rest) new, []))"
| "stepTask now userId exerciseData db (AwaitAward drv userStats [] new) =
     (db, Ended (Resolved new), [])"
| "stepTask now userId exerciseData db
     (AwaitAward drv userStats ((achievementId, achievement) # rest) new) =
     (let (err3, drv3) = nextError drv;
          (awarded, db') = awardAchievement db now userId achievement err3
      in case awarded of
           Rejected e \<Rightarrow> (db', Ended (Rejected e), [])
         | Unsettled \<Rightarrow> (db', Ended Unsettled, [InsertAward (ach_id achievement)])
         | Resolved lastID \<Rightarrow>
             (db', AwaitHas drv3 userStats rest (new @ [achievement]),
              [InsertAward (ach_id achievement)]))"
| "stepTask now userId exerciseData db (Ended p) = (db, Ended p, [])"

text \<open>One invocation run on its own for a number of steps.\<close>

fun runTask :: "nat \<Rightarrow> int \<Rightarrow> string \<Rightarrow> exercise_data \<Rightarrow> database \<times> task \<Rightarrow> database \<times> task" where
  "runTask 0 now userId exerciseData s = s"
| "runTask (Suc n) now userId exerciseData (db, t) =
     (case stepTask now userId exerciseData db t of
        (db', t', evs) \<Rightarrow> runTask n now userId exerciseData (db', t'))"





text \<open>How often an invocation inserts a row for an achievement.\<close>

definition insertCount :: "(bool \<times> event) list \<Rightarrow> bool \<Rightarrow> string \<Rightarrow> nat" where
  "insertCount events who a = length (filter (\<lambda>x. x = (who, InsertAward a)) events)"





section \<open>Notions used to state the properties\<close>

text \<open>The two windows a trend compares: the last ten samples, and the samples just
  before them, ten at most.\<close>

definition recent10 :: "real list \<Rightarrow> real list" where
  "recent10 vs = drop (length vs - 10) vs"

definition preceding10 :: "real list \<Rightarrow> real list" where
  "preceding10 vs = take (min 10 (length vs - 10)) (drop (length vs - 20) vs)"

text \<open>Samples small enough that no sum of ten of them leaves the binary64 range.\<close>

definition withinRange :: "real list \<Rightarrow> bool" where
  "withinRange vs = list_all (\<lambda>v. \<bar>v\<bar> \<le> 2 ^ 1000) vs"

text \<open>The two windows of the progress trend by calendar day: the rows of today and the
  six days before, and the rows of the seven days before those.\<close>

definition recentWeek :: "int \<Rightarrow> trend_row list \<Rightarrow> trend_row list" where
  "recentWeek now trendData =
     filter (\<lambda>r. date_of now - 6 \<le> tr_date r \<and> tr_date r \<le> date_of now) trendData"

definition priorWeek :: "int \<Rightarrow> trend_row list \<Rightarrow> trend_row list" where
  "priorWeek now trendData =
     filter (\<lambda>r. date_of now - 13 \<le> tr_date r \<and> tr_date r \<le> date_of now - 7) trendData"

text \<open>The snapshot of a user without events.\<close>

definition zeroStats :: user_stats where
  "zeroStats =
     \<lparr>totalExercises = 0, avgAccuracy = 0, avgTime = 0, bestAccuracy = 0,
      fastestTime = 999999, categories = Map.empty, languageCount = 0, currentStreak = 0,
      consecutiveHighAccuracy = 0, nightExercises = 0, morningExercises = 0,
      hasPerfectScore = False\<rparr>"

section \<open>Concrete inputs\<close>

text \<open>Twenty identical samples in every buffer: fast, fully accurate, rated 5.\<close>

definition steadyMetrics :: metrics where
  "steadyMetrics =
     \<lparr>responseTime = replicate 20 \<lparr>rs_time = 100, rs_timestamp = ''2025-01-01T00:00:00.000Z''\<rparr>,
      accuracy = replicate 20 \<lparr>as_accuracy = 1, as_timestamp = ''2025-01-01T00:00:00.000Z''\<rparr>,
      userSatisfaction =
        replicate 20 \<lparr>ss_rating = 5, ss_category = ''exercise'',
                      ss_timestamp = ''2025-01-01T00:00:00.000Z''\<rparr>,
      cacheHitRate = 0, totalRequests = 0\<rparr>"

text \<open>Exactly ten samples in every buffer.\<close>

definition tenSamples :: metrics where
  "tenSamples =
     \<lparr>responseTime = replicate 10 \<lparr>rs_time = 100, rs_timestamp = ''2025-01-01T00:00:00.000Z''\<rparr>,
      accuracy = replicate 10 \<lparr>as_accuracy = 1, as_timestamp = ''2025-01-01T00:00:00.000Z''\<rparr>,
      userSatisfaction =
        replicate 10 \<lparr>ss_rating = 5, ss_category = ''exercise'',
                      ss_timestamp = ''2025-01-01T00:00:00.000Z''\<rparr>,
      cacheHitRate = 0, totalRequests = 0\<rparr>"

text \<open>Eleven samples in every buffer: a response time of 300 ms followed by ten of 100 ms,
  eleven accuracies of 1, and a rating of 2 followed by ten of 5.\<close>

definition elevenSamples :: metrics where
  "elevenSamples =
     \<lparr>responseTime = map (\<lambda>t. \<lparr>rs_time = t, rs_timestamp = ''2025-01-01T00:00:00.000Z''\<rparr>)
                       (300 # replicate 10 100),
      accuracy = replicate 11 \<lparr>as_accuracy = 1, as_timestamp = ''2025-01-01T00:00:00.000Z''\<rparr>,
      userSatisfaction =
        map (\<lambda>r. \<lparr>ss_rating = r, ss_category = ''exercise'',
                   ss_timestamp = ''2025-01-01T00:00:00.000Z''\<rparr>) (2 # replicate 10 5),
      cacheHitRate = 0, totalRequests = 0\<rparr>"

text \<open>Trend rows carrying the given daily accuracies, newest first.\<close>

definition dayRows :: "real list \<Rightarrow> trend_row list" where
  "dayRows accs =
     map (\<lambda>a. \<lparr>tr_date = 0, tr_exercises_completed = 1, daily_accuracy = a,
               daily_avg_time = None\<rparr>) accs"

definition emptyDb :: database where
  "emptyDb =
     \<lparr>exercise_analytics = [], user_achievements = [], ua_seq = 0, user_badges = [],
      ub_seq = 0\<rparr>"

text \<open>All five queries failed: each result is the empty list.\<close>

definition noRows :: raw_stats where
  "noRows = \<lparr>basic = [], rs_categories = [], rs_languages = [], recent = [], consecutive = []\<rparr>"

text \<open>Five security exercises on five consecutive days with accuracies
  0.9, 0.95, 1.0, 0.92 and 0.88, the last one the newest.\<close>

definition fiveDays :: database where
  "fiveDays =
     \<lparr>exercise_analytics =
        [\<lparr>ea_user_id = ''u1'', ea_language = ''javascript'', ea_category = ''security'',
          time_to_complete = Some 200, accuracy_score = 0.9, created_at = 0\<rparr>,
         \<lparr>ea_user_id = ''u1'', ea_language = ''javascript'', ea_category = ''security'',
          time_to_complete = Some 200, accuracy_score = 0.95, created_at = 86400\<rparr>,
         \<lparr>ea_user_id = ''u1'', ea_language = ''javascript'', ea_category = ''security'',
          time_to_complete = Some 200, accuracy_score = 1, created_at = 172800\<rparr>,
         \<lparr>ea_user_id = ''u1'', ea_language = ''javascript'', ea_category = ''security'',
          time_to_complete = Some 200, accuracy_score = 0.92, created_at = 259200\<rparr>,
         \<lparr>ea_user_id = ''u1'', ea_language = ''javascript'', ea_category = ''security'',
          time_to_complete = Some 200, accuracy_score = 0.88, created_at = 345600\<rparr>],
      user_achievements = [], ua_seq = 0, user_badges = [], ub_seq = 0\<rparr>"

text \<open>A user with one completed exercise and no achievement yet.\<close>

definition oneEventDb :: database where
  "oneEventDb =
     \<lparr>exercise_analytics =
        [\<lparr>ea_user_id = ''u1'', ea_language = ''javascript'', ea_category = ''security'',
          time_to_complete = Some 300, accuracy_score = 1 / 2, created_at = 1000\<rparr>],
      user_achievements = [], ua_seq = 0, user_badges = [], ub_seq = 0\<rparr>"

definition aSubmission :: exercise_data where
  "aSubmission =
     \<lparr>exerciseCompleted = True, score = 1 / 2, timeToComplete = TimeNumber 300,
      ed_category = ''security'', ed_language = ''javascript''\<rparr>"

text \<open>The first catalog entry.\<close>

definition firstSteps :: achievement where
  "firstSteps =
     \<lparr>ach_id = ''first_steps'', name = ''First Steps'',
      description = ''Complete your first code review exercise'', ach_type = Milestone,
      requirement = no_requirement\<lparr>exercises_completed := Some 1\<rparr>,
      points = 10, rarity = Common\<rparr>"

text \<open>\<open>oneEventDb\<close> after the row for \<open>first_steps\<close> was inserted at time 2000.\<close>

definition heldDb :: database where
  "heldDb =
     oneEventDb\<lparr>user_achievements :=
         [\<lparr>ua_id = 1, ua_user_id = ''u1'', ua_achievement_id = ''first_steps'',
           ua_earned_at = 2000, ua_progress = 100, ua_completed = True\<rparr>],
       ua_seq := 1\<rparr>"

text \<open>The driver succeeds on the five queries of \<^verbatim>\<open>getUserStats\<close> and fails on the
  statement after them.\<close>

definition busyDriver :: driver where
  "busyDriver = [None, None, None, None, None, Some ''SQLITE_BUSY'']"


text \<open>
  A user active on seven days out of the last fourteen, every second day: today and 2, 4
  and 6 days ago with accuracy 0.75, and 8, 10 and 12 days ago with accuracy 0.5. Today is
  day 20.
\<close>

definition scatteredDays :: database where
  "scatteredDays =
     \<lparr>exercise_analytics =
        map (\<lambda>(day, acc).
               \<lparr>ea_user_id = ''u1'', ea_language = ''javascript'', ea_category = ''security'',
                time_to_complete = Some 200, accuracy_score = acc,
                created_at = day * 86400 + 3600\<rparr>)
          [(8, 1 / 2), (10, 1 / 2), (12, 1 / 2), (14, 3 / 4), (16, 3 / 4), (18, 3 / 4),
           (20, 3 / 4)],
      user_achievements = [], ua_seq = 0, user_badges = [], ub_seq = 0\<rparr>"

definition scatteredNow :: int where
  "scatteredNow = 20 * 86400 + 7200"

section \<open>Slices\<close>

lemma nat_clamp: "nat (max (int n + - int a) 0) = n - a"
  by arith

lemma nat_clamp_diff: "nat (max (int n - int b) 0 - max (int n - int a) 0) = (n - b) - (n - a)"
  by arith

lemma slice_js_neg:
  "0 < a \<Longrightarrow> 0 < b \<Longrightarrow>
   slice_js xs (- int a) (- int b) =
     take ((length xs - b) - (length xs - a)) (drop (length xs - a) xs)"
  using nat_clamp [of "length xs" a] nat_clamp_diff [of "length xs" b a]
  by (simp add: slice_js_def Let_def)

lemma slice_from_neg: "0 < a \<Longrightarrow> slice_from xs (- int a) = drop (length xs - a) xs"
  using nat_clamp [of "length xs" a]
  by (simp add: slice_from_def slice_js_def Let_def max_def)

lemma slice_js_0_7: "slice_js xs 0 7 = take 7 xs"
  by (simp add: slice_js_def Let_def min_def)

lemma slice_js_7_14: "slice_js xs 7 14 = take 7 (drop 7 xs)"
proof -
  have "nat (min 14 (int (length xs)) - min 7 (int (length xs))) =
        min 14 (length xs) - min 7 (length xs)"
    by arith
  moreover have "nat (min 7 (int (length xs))) = min 7 (length xs)"
    by arith
  moreover have "take (min 14 (length xs) - min 7 (length xs)) (drop (min 7 (length xs)) xs) =
        take 7 (drop 7 xs)"
    by (cases "length xs \<le> 7") (auto simp: min_def)
  ultimately show ?thesis
    by (simp add: slice_js_def Let_def)
qed

lemma keepLast100_eq: "keepLast100 xs = drop (length xs - 100) xs"
  using slice_from_neg [of 100 xs] by (simp add: keepLast100_def)

section \<open>Binary64 arithmetic\<close>

lemma roundHalfEven_of_int: "roundHalfEven (of_int n) = n"
  by (simp add: roundHalfEven_def)

text \<open>An integer below \<open>2 ^ 53\<close> in magnitude is a binary64 value: rounding leaves it.\<close>

lemma round64_of_int:
  assumes "\<bar>n\<bar> < 2 ^ 53"
  shows "round64 (of_int n) = of_int n"
proof (cases "n = 0")
  case True
  then show ?thesis by (simp add: round64_def)
next
  case False
  then have pos: "0 < \<bar>n\<bar>" by simp
  have a1: "1 \<le> \<bar>real_of_int n\<bar>"
    using pos by (metis of_int_abs of_int_1_le_iff int_one_le_iff_zero_less)
  have fl: "\<lfloor>\<bar>real_of_int n\<bar>\<rfloor> = \<bar>n\<bar>"
    by (metis floor_of_int of_int_abs)
  have b1: "1 \<le> bitlen \<bar>n\<bar>"
    using pos by (simp add: bitlen_alt_def)
  have b53: "bitlen \<bar>n\<bar> \<le> 53"
    using assms by (simp add: bitlen_le_iff_power)
  define k where "k = nat (53 - bitlen \<bar>n\<bar>)"
  have e: "exponent64 (of_int n) = bitlen \<bar>n\<bar> - 1"
    using a1 fl by (simp add: exponent64_def)
  have q: "max (exponent64 (of_int n) - 52) (- 1074) = - int k"
    using b1 b53 by (simp add: e k_def)
  have p: "pow2 (- int k) = 1 / 2 ^ k"
    by (cases "k = 0") (simp_all add: pow2_def)
  have "real_of_int n / pow2 (- int k) = of_int (n * 2 ^ k)"
    by (simp add: p)
  then have "roundHalfEven (real_of_int n / pow2 (- int k)) = n * 2 ^ k"
    using roundHalfEven_of_int by presburger
  then show ?thesis
    using False by (simp add: round64_def q Let_def p)
qed

lemma round64_numeral: "numeral w < (2 ^ 53 :: int) \<Longrightarrow> round64 (numeral w) = numeral w"
  using round64_of_int [of "numeral w"] by simp

lemma round64_0: "round64 0 = 0"
  by (simp add: round64_def)

lemma round64_1: "round64 1 = 1"
  using round64_of_int [of 1] by simp

text \<open>Known binary64 values: the literal \<^verbatim>\<open>0.1\<close>, the sum \<^verbatim>\<open>0.1 + 0.2\<close>, which is not
  the literal \<^verbatim>\<open>0.3\<close>, and a tie that goes to the even significand.\<close>

lemma binary64_samples:
  "round64 (1 / 10) = 3602879701896397 / 2 ^ 55"
  "fadd (round64 (1 / 10)) (round64 (2 / 10)) = 1351079888211149 / 2 ^ 52"
  "round64 (3 / 10) = 5404319552844595 / 2 ^ 54"
  "round64 (2 ^ 53 + 1) = 2 ^ 53"
  by code_simp+

text \<open>Sums of small integers are exact, and so is their mean.\<close>

lemma foldl_fadd_replicate:
  "0 \<le> a \<Longrightarrow> 0 \<le> v \<Longrightarrow> a + int n * v < 2 ^ 53 \<Longrightarrow>
   foldl fadd (of_int a) (replicate n (of_int v)) = of_int (a + int n * v)"
proof (induction n arbitrary: a)
  case 0
  then show ?case by simp
next
  case (Suc n)
  have "a + v \<le> a + int (Suc n) * v"
    using Suc.prems(2) by (simp add: distrib_right)
  with Suc.prems have small: "\<bar>a + v\<bar> < 2 ^ 53"
    by simp
  have step: "fadd (of_int a) (of_int v) = of_int (a + v)"
    using round64_of_int [OF small] by (simp add: fadd_def)
  have "foldl fadd (of_int (a + v)) (replicate n (of_int v)) = of_int ((a + v) + int n * v)"
    using Suc.prems by (intro Suc.IH) (simp_all add: distrib_right)
  then show ?case
    by (simp add: step distrib_right)
qed

lemma average_replicate_int:
  assumes "0 < n" and "0 \<le> v" and "int n * v < 2 ^ 53"
  shows "average (replicate n (of_int v)) = of_int v"
proof -
  have "foldl fadd 0 (replicate n (real_of_int v)) = of_int (int n * v)"
    using foldl_fadd_replicate [of 0 v n] assms by simp
  moreover have "real_of_int (int n * v) / real n = of_int v"
    using assms(1) by simp
  moreover have "\<bar>v\<bar> < 2 ^ 53"
  proof -
    have "v \<le> int n * v"
      using assms(1,2) by (simp add: mult_le_cancel_right1)
    with assms show ?thesis by simp
  qed
  ultimately show ?thesis
    by (simp add: average_def fdiv_def round64_of_int)
qed

lemma average_replicate_numeral:
  "0 < n \<Longrightarrow> int n * numeral w < 2 ^ 53 \<Longrightarrow> average (replicate n (numeral w)) = numeral w"
  using average_replicate_int [of n "numeral w"] by simp

lemma average_replicate_1: "0 < n \<Longrightarrow> int n < 2 ^ 53 \<Longrightarrow> average (replicate n 1) = 1"
  using average_replicate_int [of n 1] by simp

section \<open>Accuracy matching\<close>

lemma countMatches_acc:
  "countMatches userFound correct k = k + length (filter (\<lambda>u. matchesAny u correct) userFound)"
  by (induction userFound arbitrary: k) auto

lemma matchesAny_list_ex:
  "matchesAny u correct =
     list_ex (\<lambda>c. \<bar>line u - line c\<bar> \<le> 2 \<and> type u = type c) correct"
  by (induction correct) auto

lemma countMatches_correctlyFound: "countMatches found correct 0 = correctlyFound found correct"
  by (simp add: countMatches_acc correctlyFound_def matchesAny_list_ex)

text \<open>
  C4. A found issue and a canonical issue count as a match exactly when their lines differ
  by at most 2 and their types are equal, in the tracker (\<open>countMatches\<close>, the numerator
  of \<open>calculateAccuracy\<close>) and in submission scoring (\<open>correctlyFound\<close>) alike, and the
  two counts agree on all lists. Found (7, security) matches canonical (5, security);
  found (8, security) does not.
\<close>

theorem accuracy_matching_predicate:
  "(countMatches [found] [canonical] 0 = 1 \<longleftrightarrow>
      \<bar>line found - line canonical\<bar> \<le> 2 \<and> type found = type canonical) \<and>
   (correctlyFound [found] [canonical] = 1 \<longleftrightarrow>
      \<bar>line found - line canonical\<bar> \<le> 2 \<and> type found = type canonical) \<and>
   countMatches foundIssues correctIssues 0 = correctlyFound foundIssues correctIssues \<and>
   countMatches [\<lparr>line = 7, type = ''security''\<rparr>] [\<lparr>line = 5, type = ''security''\<rparr>] 0 = 1 \<and>
   correctlyFound [\<lparr>line = 7, type = ''security''\<rparr>] [\<lparr>line = 5, type = ''security''\<rparr>] = 1 \<and>
   countMatches [\<lparr>line = 8, type = ''security''\<rparr>] [\<lparr>line = 5, type = ''security''\<rparr>] 0 = 0 \<and>
   correctlyFound [\<lparr>line = 8, type = ''security''\<rparr>] [\<lparr>line = 5, type = ''security''\<rparr>] = 0"
  by (simp add: countMatches_correctlyFound) (simp add: correctlyFound_def)

text \<open>
  C10. Two found issues, at lines 5 and 6 and of type security, against the single
  canonical issue at line 5 of type security: both are counted, and \<open>trackAccuracy\<close>
  returns 2 / 1 = 2, above 1.
\<close>

theorem trackAccuracy_exceeds_one:
  "fst (trackAccuracy [\<lparr>line = 5, type = ''security''\<rparr>, \<lparr>line = 6, type = ''security''\<rparr>]
          [\<lparr>line = 5, type = ''security''\<rparr>] now m) = Number 2 \<and>
   calculateAccuracy [\<lparr>line = 5, type = ''security''\<rparr>, \<lparr>line = 6, type = ''security''\<rparr>]
     [\<lparr>line = 5, type = ''security''\<rparr>] > 1"
  by (simp add: trackAccuracy_def calculateAccuracy_def fdiv_def round64_numeral Let_def)

section \<open>The track operations\<close>

lemma keepLast100_push:
  "length (keepLast100 (xs @ [x])) = min 100 (Suc (length xs))"
  "last (keepLast100 (xs @ [x])) = x"
  "butlast (keepLast100 (xs @ [x])) = drop (Suc (length xs) - 100) xs"
  by (auto simp: keepLast100_eq butlast_drop)

lemma trackResponseTime_effect:
  "trackResponseTime startTime endTime now m =
     (Number (fsub endTime startTime),
      m\<lparr>responseTime := keepLast100 (responseTime m @
           [\<lparr>rs_time = fsub endTime startTime, rs_timestamp = now\<rparr>])\<rparr>)"
  by (simp add: trackResponseTime_def Let_def)

lemma trackAccuracy_effect:
  "trackAccuracy found correct now m =
     (Number (calculateAccuracy found correct),
      m\<lparr>accuracy := keepLast100 (accuracy m @
           [\<lparr>as_accuracy = calculateAccuracy found correct, as_timestamp = now\<rparr>])\<rparr>)"
  by (simp add: trackAccuracy_def Let_def)

lemma trackUserSatisfaction_effect:
  "snd (trackUserSatisfaction rating category now m) =
     m\<lparr>userSatisfaction := keepLast100 (userSatisfaction m @
          [\<lparr>ss_rating = rating, ss_category = category, ss_timestamp = now\<rparr>])\<rparr>"
  by (simp add: trackUserSatisfaction_def Let_def)

text \<open>
  C8. \<open>trackResponseTime\<close> and \<open>trackAccuracy\<close> return the value they stored, and each
  of the three operations pushes one sample onto its own buffer (the three lemmas above).
  \<open>trackUserSatisfaction\<close>, however, returns \<^verbatim>\<open>undefined\<close>, not the rating: for the
  rating 5 the result is not the number 5.
\<close>

theorem trackUserSatisfaction_returns_undefined:
  "fst (trackUserSatisfaction 5 ''exercise'' now m) = Undefined \<and>
   fst (trackUserSatisfaction 5 ''exercise'' now m) \<noteq> Number 5"
  by (simp add: trackUserSatisfaction_def Let_def)

section \<open>Trends and the retrain signal\<close>

lemma isImproving_windows:
  "isImproving vs higherIsBetter =
     (if length vs \<le> 10 then None
      else Some (if higherIsBetter then average (recent10 vs) > average (preceding10 vs)
                 else average (recent10 vs) < average (preceding10 vs)))"
proof -
  have r: "slice_from vs (- 10) = drop (length vs - 10) vs"
    using slice_from_neg [of 10 vs] by simp
  have o: "slice_js vs (- 20) (- 10) =
      take ((length vs - 10) - (length vs - 20)) (drop (length vs - 20) vs)"
    using slice_js_neg [of 20 10 vs] by simp
  have m: "(length vs - 10) - (length vs - 20) = min 10 (length vs - 10)"
    by linarith
  show ?thesis
    unfolding isImproving_def r o m Let_def recent10_def preceding10_def by auto
qed

text \<open>The two windows are adjacent and end the buffer.\<close>

lemma windows_adjacent:
  assumes "10 < length vs"
  shows "drop (length vs - 20) vs = preceding10 vs @ recent10 vs"
proof -
  have "drop (length vs - 10) vs = drop (min 10 (length vs - 10)) (drop (length vs - 20) vs)"
    using assms by (simp add: min_def)
  then show ?thesis
    unfolding preceding10_def recent10_def by (metis append_take_drop_id)
qed

lemma length_recent10: "10 \<le> length vs \<Longrightarrow> length (recent10 vs) = 10"
  by (simp add: recent10_def)

lemma length_preceding10: "length (preceding10 vs) = min 10 (length vs - 10)"
  by (auto simp: preceding10_def)

text \<open>
  C7, as stated, fails with exactly ten samples: the buffer does not hold fewer than 10
  samples, yet the trend is null, because no sample precedes the last ten.
\<close>

theorem ten_samples_trend_null:
  "length (responseTime tenSamples) = 10 \<and>
   responseTimeImproving (recentTrends (getPerformanceReport tenSamples)) = None \<and>
   length (accuracy tenSamples) = 10 \<and>
   accuracyImproving (recentTrends (getPerformanceReport tenSamples)) = None \<and>
   length (userSatisfaction tenSamples) = 10 \<and>
   satisfactionImproving (recentTrends (getPerformanceReport tenSamples)) = None"
  by (simp add: getPerformanceReport_def tenSamples_def isImproving_windows Let_def)

lemma average_single: "\<bar>n\<bar> < 2 ^ 53 \<Longrightarrow> average [of_int n] = of_int n"
  by (simp add: average_def fadd_def fdiv_def round64_of_int)

lemma eleven_windows:
  "recent10 (map rs_time (responseTime elevenSamples)) = replicate 10 100"
  "preceding10 (map rs_time (responseTime elevenSamples)) = [300]"
  "recent10 (map as_accuracy (accuracy elevenSamples)) = replicate 10 1"
  "preceding10 (map as_accuracy (accuracy elevenSamples)) = [1]"
  "recent10 (map ss_rating (userSatisfaction elevenSamples)) = replicate 10 5"
  "preceding10 (map ss_rating (userSatisfaction elevenSamples)) = [2]"
  by (simp_all add: elevenSamples_def recent10_def preceding10_def)

lemma eleven_averages:
  "average (replicate 10 100) = 100" "average [300] = 300" "average (replicate 10 1) = 1"
  "average [1] = 1" "average (replicate 10 5) = 5" "average [2] = 2"
  using average_single [of 300] average_single [of 1] average_single [of 2]
  by (simp_all add: average_replicate_numeral average_replicate_1)

text \<open>
  C7 (amended). For each of the three metrics, \<open>getPerformanceReport\<close> reports the trend as
  null exactly when the buffer holds at most 10 samples. With 11 or more, the trend compares
  the mean of the last 10 samples with the mean of the samples just before them (10 of
  them, or all the earlier ones when the buffer holds fewer than 20), in the metric's
  favourable direction: response time improves when the recent mean is strictly lower,
  accuracy and satisfaction when it is strictly higher. A mean is the one the code
  computes: the binary64 sum from the left, divided by the count; the comparison is stated
  for samples of magnitude at most \<open>2 ^ 1000\<close>, whose sums do not overflow.
\<close>

theorem trend_null_up_to_ten_samples:
  "(responseTimeImproving (recentTrends (getPerformanceReport m)) = None \<longleftrightarrow>
      length (responseTime m) \<le> 10) \<and>
   (accuracyImproving (recentTrends (getPerformanceReport m)) = None \<longleftrightarrow>
      length (accuracy m) \<le> 10) \<and>
   (satisfactionImproving (recentTrends (getPerformanceReport m)) = None \<longleftrightarrow>
      length (userSatisfaction m) \<le> 10) \<and>
   (10 < length (responseTime m) \<and> withinRange (map rs_time (responseTime m)) \<longrightarrow>
      responseTimeImproving (recentTrends (getPerformanceReport m)) =
        Some (average (recent10 (map rs_time (responseTime m)))
                < average (preceding10 (map rs_time (responseTime m))))) \<and>
   (10 < length (accuracy m) \<and> withinRange (map as_accuracy (accuracy m)) \<longrightarrow>
      accuracyImproving (recentTrends (getPerformanceReport m)) =
        Some (average (recent10 (map as_accuracy (accuracy m)))
                > average (preceding10 (map as_accuracy (accuracy m))))) \<and>
   (10 < length (userSatisfaction m) \<and> withinRange (map ss_rating (userSatisfaction m)) \<longrightarrow>
      satisfactionImproving (recentTrends (getPerformanceReport m)) =
        Some (average (recent10 (map ss_rating (userSatisfaction m)))
                > average (preceding10 (map ss_rating (userSatisfaction m)))))"
  by (simp add: getPerformanceReport_def isImproving_windows Let_def)

text \<open>With eleven samples in each buffer the three trends are reported: the response
  time fell from 300 ms to 100 ms and the rating rose from 2 to 5, so both improve; the
  accuracy stayed at 1, so it does not.\<close>

theorem trend_null_up_to_ten_samples_witness:
  "length (responseTime elevenSamples) = 11 \<and>
   withinRange (map rs_time (responseTime elevenSamples)) \<and>
   responseTimeImproving (recentTrends (getPerformanceReport elevenSamples)) = Some True \<and>
   length (accuracy elevenSamples) = 11 \<and>
   withinRange (map as_accuracy (accuracy elevenSamples)) \<and>
   accuracyImproving (recentTrends (getPerformanceReport elevenSamples)) = Some False \<and>
   length (userSatisfaction elevenSamples) = 11 \<and>
   withinRange (map ss_rating (userSatisfaction elevenSamples)) \<and>
   satisfactionImproving (recentTrends (getPerformanceReport elevenSamples)) = Some True"
proof -
  have len: "length (responseTime elevenSamples) = 11" "length (accuracy elevenSamples) = 11"
    "length (userSatisfaction elevenSamples) = 11"
    by (simp_all add: elevenSamples_def)
  have rng: "withinRange (map rs_time (responseTime elevenSamples))"
    "withinRange (map as_accuracy (accuracy elevenSamples))"
    "withinRange (map ss_rating (userSatisfaction elevenSamples))"
    by (simp_all add: elevenSamples_def withinRange_def list_all_iff)
  from trend_null_up_to_ten_samples [of elevenSamples] len rng
  show ?thesis
    by (simp add: eleven_windows eleven_averages)
qed

text \<open>\<open>shouldRetrain\<close> is the disjunction of the three thresholds on the report's rounded
  values and of the three trends being \<^verbatim>\<open>false\<close>; a null trend adds nothing.\<close>

lemma shouldRetrain_iff:
  "shouldRetrain m \<longleftrightarrow>
     averageResponseTime (getPerformanceReport m) > 5000 \<or>
     averageAccuracy (getPerformanceReport m) < 70 \<or>
     averageUserSatisfaction (getPerformanceReport m) < 3.5 \<or>
     isImproving (map rs_time (responseTime m)) False = Some False \<or>
     isImproving (map as_accuracy (accuracy m)) True = Some False \<or>
     isImproving (map ss_rating (userSatisfaction m)) True = Some False"
  by (simp add: shouldRetrain_def getPerformanceReport_def Let_def)

lemma shouldRetrain_null_trends:
  "length (responseTime m) \<le> 10 \<Longrightarrow> length (accuracy m) \<le> 10 \<Longrightarrow>
   length (userSatisfaction m) \<le> 10 \<Longrightarrow>
   shouldRetrain m \<longleftrightarrow>
     averageResponseTime (getPerformanceReport m) > 5000 \<or>
     averageAccuracy (getPerformanceReport m) < 70 \<or>
     averageUserSatisfaction (getPerformanceReport m) < 3.5"
  by (simp add: shouldRetrain_iff isImproving_windows)

text \<open>Eleven accuracies of \<^verbatim>\<open>0.7\<close>: the rounded sum of the last ten, divided by ten, is
  above \<^verbatim>\<open>0.7\<close>, and the trend is \<^verbatim>\<open>true\<close>.\<close>

lemma eleven_equal_accuracies_improve:
  "isImproving (replicate 11 (round64 (7 / 10))) True = Some True"
  by code_simp

text \<open>
  C3. With twenty samples of 100 ms, twenty accuracies of 1 and twenty ratings of 5, every
  threshold is healthy (the report shows 100 ms, 100 percent and 5.0) and no metric moves:
  in each buffer the mean of the last ten samples equals the mean of the ten before. No
  latency is increasing and no accuracy or satisfaction is decreasing, yet
  \<open>shouldRetrain\<close> is true, since \<open>isImproving\<close> answers \<^verbatim>\<open>false\<close> for equal means.
\<close>

theorem shouldRetrain_on_steady_metrics:
  "shouldRetrain steadyMetrics \<and>
   averageResponseTime (getPerformanceReport steadyMetrics) = 100 \<and>
   averageAccuracy (getPerformanceReport steadyMetrics) = 100 \<and>
   averageUserSatisfaction (getPerformanceReport steadyMetrics) = 5 \<and>
   average (recent10 (map rs_time (responseTime steadyMetrics))) =
     average (preceding10 (map rs_time (responseTime steadyMetrics))) \<and>
   average (recent10 (map as_accuracy (accuracy steadyMetrics))) =
     average (preceding10 (map as_accuracy (accuracy steadyMetrics))) \<and>
   average (recent10 (map ss_rating (userSatisfaction steadyMetrics))) =
     average (preceding10 (map ss_rating (userSatisfaction steadyMetrics)))"
  by (simp add: shouldRetrain_def getPerformanceReport_def isImproving_def slice_from_def
        slice_js_def steadyMetrics_def average_replicate_numeral average_replicate_1
        fmul_def fdiv_def round64_numeral js_round_def recent10_def preceding10_def Let_def)

section \<open>The progress trend\<close>

text \<open>The classification over the rows: the first seven rows against the seven after
  them, by the rounded difference of their means.\<close>

lemma analyzeProgressTrend_trend:
  "trend (analyzeProgressTrend trendData) =
     (if length trendData < 3 then insufficient_data
      else if take 7 (drop 7 trendData) = [] then new_user
      else let d = fsub (average (map daily_accuracy (take 7 trendData)))
                        (average (map daily_accuracy (take 7 (drop 7 trendData))))
           in if d > round64 (1 / 10) then improving
              else if d < - round64 (1 / 10) then declining else stable)"
  unfolding analyzeProgressTrend_def slice_js_0_7 slice_js_7_14 Let_def
  by (simp add: min_def)

text \<open>Seven days of \<^verbatim>\<open>0.25\<close> after seven days of \<^verbatim>\<open>0.35\<close>: the rounded difference is
  below \<^verbatim>\<open>-0.1\<close>, and the trend is declining.\<close>

lemma tenth_below_is_declining:
  "trend (analyzeProgressTrend
            (dayRows (replicate 7 (round64 (1 / 4)) @ replicate 7 (round64 (35 / 100))))) =
     declining"
  by code_simp

text \<open>
  C9. A user active on seven of the last fourteen days, every second day, with accuracy
  0.75 on the four days of the recent week (days 0 to 6 back) and 0.5 on the three days of
  the prior week (days 7 to 13 back). The prior window holds data and the recent average
  exceeds the prior average by 0.25, more than 0.10, so the claim calls the trend
  improving. \<open>analyzeProgressTrend\<close> slices the seven rows of the query by position: all
  seven fall in its first slice, the second is empty, and it answers \<open>new_user\<close>.
\<close>

theorem scattered_days_trend_new_user:
  "trend (analyzeProgressTrend (progressTrendQuery scatteredDays scatteredNow ''u1'')) = new_user \<and>
   map tr_date (progressTrendQuery scatteredDays scatteredNow ''u1'') =
     [20, 18, 16, 14, 12, 10, 8] \<and>
   map daily_accuracy (recentWeek scatteredNow (progressTrendQuery scatteredDays scatteredNow ''u1'')) =
     [3 / 4, 3 / 4, 3 / 4, 3 / 4] \<and>
   map daily_accuracy (priorWeek scatteredNow (progressTrendQuery scatteredDays scatteredNow ''u1'')) =
     [1 / 2, 1 / 2, 1 / 2] \<and>
   fsub (average [3 / 4, 3 / 4, 3 / 4, 3 / 4]) (average [1 / 2, 1 / 2, 1 / 2]) = 1 / 4 \<and>
   round64 (1 / 10) < 1 / 4"
  by code_simp

section \<open>The statistics snapshot\<close>

lemmas stats_defs =
  getUserStats_def processUserStats_def basicQuery_def categoriesQuery_def languagesQuery_def
  recentQuery_def consecutiveQuery_def mostRecentFirst_def sql_avg_def sql_mean_def sql_max_def
  sql_min_def
  or_default_def List.map_filter_def

text \<open>When every query fails, the snapshot is the same as for a user without events.\<close>

lemma processUserStats_noRows: "processUserStats now noRows = zeroStats"
  by (simp add: processUserStats_def noRows_def zeroStats_def or_default_def)

text \<open>
  C5, as stated, fails for \<open>fastestTime\<close>: without events \<^verbatim>\<open>MIN(time_to_complete)\<close> is
  NULL and the snapshot takes the default \<^verbatim>\<open>999999\<close>, not 0.
\<close>

theorem zero_events_fastestTime:
  "userRows emptyDb ''u1'' = [] \<and>
   fastestTime (getUserStats emptyDb 0 ''u1'') = 999999 \<and>
   fastestTime (getUserStats emptyDb 0 ''u1'') \<noteq> 0"
  by (simp add: stats_defs emptyDb_def userRows_def Let_def)

text \<open>
  C5 (amended). For every user with zero completion events, aggregation yields a snapshot
  in which totalExercises, avgAccuracy, avgTime, bestAccuracy, languageCount,
  currentStreak, consecutiveHighAccuracy and the night and morning counts are 0, the
  category table is empty, hasPerfectScore is false, and fastestTime is the default 999999.
\<close>

theorem zero_events_snapshot:
  "userRows db userId = [] \<Longrightarrow> getUserStats db now userId = zeroStats"
  by (simp add: stats_defs zeroStats_def Let_def)

theorem zero_events_snapshot_witness:
  "userRows emptyDb ''u1'' = [] \<and> getUserStats emptyDb 0 ''u1'' = zeroStats"
  using zero_events_snapshot [of emptyDb "''u1''" 0] by (simp add: emptyDb_def userRows_def)

subsection \<open>The run of high accuracies\<close>

lemma highAccuracyLoop_rows:
  "highAccuracyLoop
     (map (\<lambda>r. \<lparr>cr_accuracy_score = accuracy_score r, cr_created_at = created_at r\<rparr>) rows) n =
   n + length (takeWhile (\<lambda>r. accuracy_score r \<ge> 0.9) rows)"
  by (induction rows arbitrary: n) auto

lemma consecutiveHighAccuracy_takeWhile:
  "consecutiveHighAccuracy (getUserStats db now userId) =
     length (takeWhile (\<lambda>r. accuracy_score r \<ge> 0.9)
               (take 10 (mostRecentFirst (userRows db userId))))"
  unfolding getUserStats_def processUserStats_def consecutiveQuery_def Let_def
  by (simp add: highAccuracyLoop_rows)

lemma sorted_neg_rev:
  "sorted (map (\<lambda>r. - f r) xs) \<Longrightarrow> sorted (rev (map (f :: 'a \<Rightarrow> int) xs))"
  by (induction xs) (auto simp: sorted_append)

lemma mostRecentFirst_sorted: "sorted (rev (map created_at (mostRecentFirst rows)))"
  unfolding mostRecentFirst_def by (rule sorted_neg_rev) (rule sorted_sort_key)

lemma mostRecentFirst_set: "set (mostRecentFirst rows) = set rows"
  by (simp add: mostRecentFirst_def)

lemma mostRecentFirst_length: "length (mostRecentFirst rows) = length rows"
  by (simp add: mostRecentFirst_def)

lemma mostRecentFirst_hd:
  assumes "mostRecentFirst rows = r # rest" and "r' \<in> set rows"
  shows "created_at r' \<le> created_at r"
proof -
  from mostRecentFirst_sorted [of rows] assms(1)
  have "\<forall>x \<in> set rest. created_at x \<le> created_at r"
    by (auto simp: sorted_append)
  moreover from assms have "r' = r \<or> r' \<in> set rest"
    using mostRecentFirst_set [of rows] by auto
  ultimately show ?thesis by auto
qed

lemma newest_low_stops_at_once:
  assumes "\<forall>r \<in> set rows.
             (\<forall>r' \<in> set rows. created_at r' \<le> created_at r) \<longrightarrow> accuracy_score r < 0.9"
  shows "takeWhile (\<lambda>r. accuracy_score r \<ge> 0.9) (take 10 (mostRecentFirst rows)) = []"
proof (cases "mostRecentFirst rows")
  case Nil
  then show ?thesis by simp
next
  case (Cons r rest)
  then have "r \<in> set rows"
    using mostRecentFirst_set [of rows] by auto
  moreover have "\<forall>r' \<in> set rows. created_at r' \<le> created_at r"
    using mostRecentFirst_hd [OF Cons] by blast
  ultimately have "accuracy_score r < 0.9"
    using assms by blast
  then show ?thesis
    using Cons by simp
qed

lemma fiveDays_newest_first:
  "map accuracy_score (mostRecentFirst (userRows fiveDays ''u1'')) = [0.88, 0.92, 1, 0.95, 0.9]"
  by (simp add: fiveDays_def userRows_def mostRecentFirst_def)

text \<open>
  C6. \<open>consecutiveHighAccuracy\<close> is the length of the leading run of events with accuracy
  at least 0.9 among the user's 10 most recent events, newest first: the events are those
  of the user, ordered by decreasing \<open>created_at\<close>, the count stops at the first event
  below 0.9, and the clock plays no part. In particular, when the newest event (every event
  no other event is newer than) has an accuracy below 0.9, such as 0.88, the count is 0
  whatever the earlier events are.
\<close>

theorem consecutiveHighAccuracy_most_recent_first:
  "consecutiveHighAccuracy (getUserStats db now userId) =
     length (takeWhile (\<lambda>r. accuracy_score r \<ge> 0.9)
               (take 10 (mostRecentFirst (userRows db userId)))) \<and>
   sorted (rev (map created_at (mostRecentFirst (userRows db userId)))) \<and>
   set (mostRecentFirst (userRows db userId)) = set (userRows db userId) \<and>
   ((\<forall>r \<in> set (userRows db userId).
       (\<forall>r' \<in> set (userRows db userId). created_at r' \<le> created_at r) \<longrightarrow>
       accuracy_score r < 0.9)
    \<longrightarrow> consecutiveHighAccuracy (getUserStats db now userId) = 0)"
  using consecutiveHighAccuracy_takeWhile [of db now userId]
    mostRecentFirst_sorted [of "userRows db userId"]
    mostRecentFirst_set [of "userRows db userId"]
    newest_low_stops_at_once [of "userRows db userId"]
  by simp

theorem consecutiveHighAccuracy_most_recent_first_witness:
  "map accuracy_score (mostRecentFirst (userRows fiveDays ''u1'')) = [0.88, 0.92, 1, 0.95, 0.9] \<and>
   consecutiveHighAccuracy (getUserStats fiveDays 345700 ''u1'') = 0"
proof -
  have h: "\<forall>r \<in> set (userRows fiveDays ''u1'').
      (\<forall>r' \<in> set (userRows fiveDays ''u1''). created_at r' \<le> created_at r) \<longrightarrow>
      accuracy_score r < 0.9"
    by (simp add: fiveDays_def userRows_def)
  from consecutiveHighAccuracy_most_recent_first [of fiveDays 345700 "''u1''"] h
  have "consecutiveHighAccuracy (getUserStats fiveDays 345700 ''u1'') = 0"
    by blast
  with fiveDays_newest_first show ?thesis by simp
qed

section \<open>Awarding\<close>





lemma awardAchievement_cases:
  "fst (awardAchievement db now userId a err) \<noteq> Resolved n"
  "fst (awardAchievement db now userId a err) = Rejected e \<longleftrightarrow> err = Some e"
  "fst (awardAchievement db now userId a err) = Unsettled \<longleftrightarrow> err = None"
  "snd (awardAchievement db now userId a (Some e)) = db"
  by (auto simp: awardAchievement_def Let_def split: option.splits)

lemma awardAchievement_not_resolved:
  "awardAchievement db now userId a err \<noteq> (Resolved n, d)"
  using awardAchievement_cases(1) [of db now userId a err n] by auto








lemma achievements_first: "hd achievements = (''first_steps'', firstSteps)"
  by (simp add: achievements_def firstSteps_def)


text \<open>Without driver errors the statistics are those of \<open>getUserStats\<close>.\<close>

lemma getUserStatsWith_no_error:
  "getUserStatsWith db now userId [] = (getUserStats db now userId, [])"
  by (simp add: getUserStatsWith_def getUserStats_def rowsOrNone_def)

lemmas award_defs =
  checkAchievements_def getUserStatsWith_def rowsOrNone_def stats_defs userRows_def date_of_def
  hour_of_def meetsRequirement_def userHasAchievement_def hasCompletedRow_def
  awardAchievement_def countFastCompletions_def fastCompletions_def time_le_req_def
  truthy_def ge_req_def le_req_def no_requirement_def achievements_def Let_def
  oneEventDb_def aSubmission_def firstSteps_def heldDb_def busyDriver_def

lemma first_call: "checkAchievements oneEventDb 2000 ''u1'' aSubmission [] = (Unsettled, heldDb)"
  by (simp add: award_defs)






section \<open>Interleaved awarding\<close>

text \<open>Run on its own, a task does what \<open>checkAchievements\<close> does.\<close>

lemma runTask_Ended: "runTask n now userId ed (db, Ended p) = (db, Ended p)"
  by (induction n) simp_all

lemma runTask_checkLoop:
  "\<exists>n. runTask n now userId ed (db, AwaitHas drv st es new) =
         (snd (checkLoop now userId st ed es drv db new),
          Ended (fst (checkLoop now userId st ed es drv db new)))"
proof (induction es arbitrary: drv db new)
  case Nil
  have "runTask (Suc 0) now userId ed (db, AwaitHas drv st [] new) = (db, Ended (Resolved new))"
    by simp
  then show ?case by (metis checkLoop.simps(1) fst_conv snd_conv)
next
  case (Cons x es)
  obtain k a where x: "x = (k, a)" by (cases x)
  obtain err1 drv1 where n1: "nextError drv = (err1, drv1)" by (cases "nextError drv")
  obtain meets drv2 where m: "meetsRequirement db userId a st ed drv1 = (meets, drv2)"
    by (cases "meetsRequirement db userId a st ed drv1")
  obtain err3 drv3 where n3: "nextError drv2 = (err3, drv3)" by (cases "nextError drv2")
  obtain awarded d where aw: "awardAchievement db now userId a err3 = (awarded, d)"
    by (cases "awardAchievement db now userId a err3")
  have nores: "\<And>n. awarded \<noteq> Resolved n"
    using awardAchievement_not_resolved [of db now userId a err3] aw by auto
  let ?goal = "\<lambda>n. runTask n now userId ed (db, AwaitHas drv st (x # es) new) =
         (snd (checkLoop now userId st ed (x # es) drv db new),
          Ended (fst (checkLoop now userId st ed (x # es) drv db new)))"
  show ?case
  proof (cases "userHasAchievement db userId k err1")
    case (Rejected e)
    then have "?goal (Suc 0)" using x n1 by simp
    then show ?thesis by blast
  next
    case Unsettled
    then have "?goal (Suc 0)" using x n1 by simp
    then show ?thesis by blast
  next
    case (Resolved h)
    show ?thesis
    proof (cases h)
      case True
      from Cons.IH [where drv = drv1 and db = db and new = new] obtain n where
        "runTask n now userId ed (db, AwaitHas drv1 st es new) =
           (snd (checkLoop now userId st ed es drv1 db new),
            Ended (fst (checkLoop now userId st ed es drv1 db new)))"
        by blast
      then have "?goal (Suc n)" using Resolved True x n1 by simp
      then show ?thesis by blast
    next
      case notHeld: False
      show ?thesis
      proof (cases meets)
        case (Rejected e)
        then have "?goal (Suc (Suc 0))" using Resolved notHeld x n1 m by simp
        then show ?thesis by blast
      next
        case Unsettled
        then have "?goal (Suc (Suc 0))" using \<open>userHasAchievement db userId k err1 = Resolved h\<close> notHeld x n1 m by simp
        then show ?thesis by blast
      next
        case ok: (Resolved b)
        show ?thesis
        proof (cases b)
          case False
          from Cons.IH [where drv = drv2 and db = db and new = new] obtain n where
            "runTask n now userId ed (db, AwaitHas drv2 st es new) =
               (snd (checkLoop now userId st ed es drv2 db new),
                Ended (fst (checkLoop now userId st ed es drv2 db new)))"
            by blast
          then have "?goal (Suc (Suc n))" using Resolved notHeld ok False x n1 m by simp
          then show ?thesis by blast
        next
          case True
          have "?goal (Suc (Suc (Suc 0)))"
          proof (cases awarded)
            case (Resolved n)
            with nores show ?thesis by blast
          next
            case (Rejected e)
            with \<open>userHasAchievement db userId k err1 = Resolved h\<close> notHeld ok True x n1 m n3 aw
            show ?thesis by simp
          next
            case Unsettled
            with \<open>userHasAchievement db userId k err1 = Resolved h\<close> notHeld ok True x n1 m n3 aw
            show ?thesis by simp
          qed
          then show ?thesis by blast
        qed
      qed
    qed
  qed
qed

lemma runTask_checkAchievements:
  "\<exists>n. runTask n now userId ed (db, Starting drv) =
         (snd (checkAchievements db now userId ed drv),
          Ended (fst (checkAchievements db now userId ed drv)))"
proof -
  obtain st drv0 where g: "getUserStatsWith db now userId drv = (st, drv0)"
    by (cases "getUserStatsWith db now userId drv")
  from runTask_checkLoop [where now = now and userId = userId and ed = ed and db = db
      and drv = drv0 and st = st and es = achievements and new = "[]"]
  obtain n where "runTask n now userId ed (db, AwaitHas drv0 st achievements []) =
     (snd (checkAchievements db now userId ed drv),
      Ended (fst (checkAchievements db now userId ed drv)))"
    by (auto simp: checkAchievements_def g)
  then have "runTask (Suc n) now userId ed (db, Starting drv) =
     (snd (checkAchievements db now userId ed drv),
      Ended (fst (checkAchievements db now userId ed drv)))"
    by (simp add: g)
  then show ?thesis by blast
qed










lemma insertCount_Nil: "insertCount (events @ map (Pair who) []) who a = insertCount events who a"
  by simp






end
